theory Spec2Isabelle
  imports Main
begin

section \<open>Python values, exceptions and effects\<close>

text \<open>
  The pipeline of the repository is two modules, \<^verbatim>\<open>vector_store.py\<close> and
  \<^verbatim>\<open>query_engine.py\<close>. Their functions call remote services (the transcript
  API, the embedding endpoint, the FAISS index, the hosted language model) and wrap
  the calls in \<^verbatim>\<open>try\<close>/\<^verbatim>\<open>except Exception\<close>.

  An exception is a value. Every constructor stands for an instance of a subclass of
  Python's \<^verbatim>\<open>Exception\<close>, the class the handlers of the source catch, and
  carries the text \<^verbatim>\<open>str(e)\<close>. The two classes of the transcript library that
  the source names in \<^verbatim>\<open>except\<close> clauses have constructors of their own.
\<close>

datatype py_exception =
    TranscriptsDisabled string
  | NoTranscriptFound string
  | ValueError string
  | AttributeError string
  | TypeError string
  | IndexError string
  | OtherException string

fun str_of :: "py_exception \<Rightarrow> string" where
  "str_of (TranscriptsDisabled m) = m"
| "str_of (NoTranscriptFound m) = m"
| "str_of (ValueError m) = m"
| "str_of (AttributeError m) = m"
| "str_of (TypeError m) = m"
| "str_of (IndexError m) = m"
| "str_of (OtherException m) = m"

text \<open>
  A computation that may call a service takes the state of the outside world and
  returns either the exception it raised (\<open>Inl\<close>) or its value (\<open>Inr\<close>), with the
  world after it. The world is a type variable: nothing is assumed about the
  services, not even that the same call gives the same answer twice.
\<close>

type_synonym ('w, 'a) py = "'w \<Rightarrow> (py_exception + 'a) \<times> 'w"

definition return_py :: "'a \<Rightarrow> ('w, 'a) py" where
  "return_py a = (\<lambda>w. (Inr a, w))"

definition raise_py :: "py_exception \<Rightarrow> ('w, 'a) py" where
  "raise_py e = (\<lambda>w. (Inl e, w))"

definition bind_py :: "('w, 'a) py \<Rightarrow> ('a \<Rightarrow> ('w, 'b) py) \<Rightarrow> ('w, 'b) py" where
  "bind_py m f = (\<lambda>w. case m w of (Inl e, w') \<Rightarrow> (Inl e, w') | (Inr a, w') \<Rightarrow> f a w')"

text \<open>\<^verbatim>\<open>try: body  except Exception as e: handler(e)\<close>\<close>

definition try_except :: "('w, 'a) py \<Rightarrow> (py_exception \<Rightarrow> ('w, 'a) py) \<Rightarrow> ('w, 'a) py" where
  "try_except body handler =
     (\<lambda>w. case body w of (Inl e, w') \<Rightarrow> handler e w' | (Inr a, w') \<Rightarrow> (Inr a, w'))"

text \<open>\<^verbatim>\<open>sep.join(xs)\<close>\<close>

fun join :: "string \<Rightarrow> string list \<Rightarrow> string" where
  "join sep [] = []"
| "join sep [x] = x"
| "join sep (x # y # ys) = x @ sep @ join sep (y # ys)"

section \<open>query\_engine.py\<close>

text \<open>
  A retrieved \<^verbatim>\<open>Document\<close>; only \<^verbatim>\<open>page_content\<close> is read by the source.
\<close>

record document =
  page_content :: string

text \<open>
  The object \<^verbatim>\<open>vector_store.as_retriever(search_type=..., search_kwargs={"k": k})\<close>:
  a reference to the store and the keyword dictionary of the search.
\<close>

record 'vs retriever =
  vectorstore :: 'vs
  search_type :: string
  search_kwargs :: "string \<rightharpoonup> int"

text \<open>
  The attributes of a \<^verbatim>\<open>QueryEngine\<close>. \<^verbatim>\<open>__init__\<close> sets \<^verbatim>\<open>model\<close>,
  \<^verbatim>\<open>rag_chain\<close> and \<^verbatim>\<open>retriever\<close> to \<^verbatim>\<open>None\<close> first, hence the options.
  The chain \<^verbatim>\<open>parallel_chain | prompt | self.model | StrOutputParser()\<close> holds the
  model it was built over and a reference to the very retriever object that
  \<^verbatim>\<open>self.retriever\<close> names; that one object is kept once, in the field
  \<open>retriever\<close>, and the chain reads it there.
\<close>

record ('vs, 'llm) QueryEngine =
  vector_store :: 'vs
  k :: int
  model :: "'llm option"
  rag_chain :: "'llm option"
  retriever :: "'vs retriever option"

text \<open>
  The services behind the chain: the similarity search of the store (it embeds the
  question remotely) with its keyword arguments, and the prompt, chat model and output
  parser applied to the formatted context and the question.
\<close>

record ('w, 'vs, 'llm) langchain =
  similarity_search :: "'vs \<Rightarrow> string \<Rightarrow> (string \<rightharpoonup> int) \<Rightarrow> ('w, document list) py"
  generate :: "'llm \<Rightarrow> string \<Rightarrow> string \<Rightarrow> ('w, string) py"

text \<open>The dictionary \<^verbatim>\<open>query\<close> returns, one field per key.\<close>

record query_result =
  success :: bool
  question :: string
  answer :: "string option"
  sources :: "string list"
  num_sources :: int
  error :: "string option"

text \<open>
  Reading an attribute of \<^verbatim>\<open>None\<close> raises \<^verbatim>\<open>AttributeError\<close> with
  Python's message; \<open>CHR 0x27\<close> is the single quote.
\<close>

definition none_has_no :: "string \<Rightarrow> py_exception" where
  "none_has_no name =
     AttributeError ([CHR 0x27] @ ''NoneType'' @ [CHR 0x27] @ '' object has no attribute ''
                     @ [CHR 0x27] @ name @ [CHR 0x27])"

definition attr_of :: "'a option \<Rightarrow> string \<Rightarrow> ('w, 'a) py" where
  "attr_of obj name =
     (case obj of
        None \<Rightarrow> raise_py (none_has_no name)
      | Some x \<Rightarrow> return_py x)"

text \<open>\<^verbatim>\<open>retriever.invoke(question)\<close> with \<^verbatim>\<open>search_type="similarity"\<close>.\<close>

definition retriever_invoke ::
  "('w, 'vs, 'llm) langchain \<Rightarrow> 'vs retriever \<Rightarrow> string \<Rightarrow> ('w, document list) py" where
  "retriever_invoke lc r q = similarity_search lc (vectorstore r) q (search_kwargs r)"

definition format_docs :: "document list \<Rightarrow> string" where
  "format_docs retrieved_docs = join [CHR 0x0A, CHR 0x0A] (map page_content retrieved_docs)"

text \<open>
  \<^verbatim>\<open>self.rag_chain.invoke(question)\<close>: the context branch runs the retriever and
  \<^verbatim>\<open>format_docs\<close>, the question passes through, then prompt, model and parser.
\<close>

definition rag_chain_invoke ::
  "('w, 'vs, 'llm) langchain \<Rightarrow> ('vs, 'llm) QueryEngine \<Rightarrow> string \<Rightarrow> ('w, string) py" where
  "rag_chain_invoke lc self q =
     bind_py (attr_of (rag_chain self) ''invoke'') (\<lambda>chain_model.
     bind_py (attr_of (retriever self) ''invoke'') (\<lambda>r.
     bind_py (retriever_invoke lc r q) (\<lambda>retrieved_docs.
     generate lc chain_model (format_docs retrieved_docs) q)))"

text \<open>The body of the \<^verbatim>\<open>try\<close> block of \<^verbatim>\<open>query\<close>.\<close>

definition query_try ::
  "('w, 'vs, 'llm) langchain \<Rightarrow> ('vs, 'llm) QueryEngine \<Rightarrow> string \<Rightarrow> ('w, query_result) py" where
  "query_try lc self q =
     bind_py (rag_chain_invoke lc self q) (\<lambda>ans.
     bind_py (attr_of (retriever self) ''invoke'') (\<lambda>r.
     bind_py (retriever_invoke lc r q) (\<lambda>source_docs.
     let srcs = map page_content source_docs in
     return_py \<lparr>success = True, question = q, answer = Some ans, sources = srcs,
                num_sources = int (length srcs), error = None\<rparr>)))"

text \<open>The dictionary built by the \<^verbatim>\<open>except Exception as e\<close> clause.\<close>

definition query_except :: "string \<Rightarrow> py_exception \<Rightarrow> query_result" where
  "query_except q e =
     \<lparr>success = False, question = q, answer = None, sources = [], num_sources = 0,
      error = Some (''Error processing query: '' @ str_of e)\<rparr>"

definition query ::
  "('w, 'vs, 'llm) langchain \<Rightarrow> ('vs, 'llm) QueryEngine \<Rightarrow> string \<Rightarrow> ('w, query_result) py" where
  "query lc self q = try_except (query_try lc self q) (\<lambda>e. return_py (query_except q e))"

text \<open>
  \<^verbatim>\<open>update_k\<close> mutates the engine: it stores \<open>new_k\<close> in \<^verbatim>\<open>self.k\<close>, then in
  the dictionary \<^verbatim>\<open>self.retriever.search_kwargs\<close>. It returns the outcome of the
  call and the engine after it; with no retriever the second statement raises after
  the first took effect.
\<close>

definition update_k ::
  "('vs, 'llm) QueryEngine \<Rightarrow> int \<Rightarrow> (py_exception + unit) \<times> ('vs, 'llm) QueryEngine" where
  "update_k self new_k =
     (let self1 = self\<lparr>k := new_k\<rparr> in
      case retriever self1 of
        None \<Rightarrow> (Inl (none_has_no ''search_kwargs''), self1)
      | Some r \<Rightarrow>
          (Inr (), self1\<lparr>retriever := Some (r\<lparr>search_kwargs := (search_kwargs r)(''k'' \<mapsto> new_k)\<rparr>)\<rparr>))"

text \<open>The loop of \<^verbatim>\<open>batch_query\<close>, with the list \<^verbatim>\<open>results\<close> it appends to.\<close>

fun batch_query_loop ::
  "('w, 'vs, 'llm) langchain \<Rightarrow> ('vs, 'llm) QueryEngine \<Rightarrow> string list \<Rightarrow> query_result list
     \<Rightarrow> ('w, query_result list) py" where
  "batch_query_loop lc self [] results = return_py results"
| "batch_query_loop lc self (q # qs) results =
     bind_py (query lc self q) (\<lambda>result. batch_query_loop lc self qs (results @ [result]))"

definition batch_query ::
  "('w, 'vs, 'llm) langchain \<Rightarrow> ('vs, 'llm) QueryEngine \<Rightarrow> string list
     \<Rightarrow> ('w, query_result list) py" where
  "batch_query lc self questions = batch_query_loop lc self questions []"

subsection \<open>Construction\<close>

text \<open>
  Where the token may come from: whether \<^verbatim>\<open>import streamlit\<close> succeeded,
  \<^verbatim>\<open>st.secrets.get\<close> (it raises when there is no secrets file) and
  \<^verbatim>\<open>os.getenv\<close>.
\<close>

record settings =
  HAS_STREAMLIT :: bool
  secrets_get :: "string \<Rightarrow> py_exception + string option"
  getenv :: "string \<Rightarrow> string option"

text \<open>
  \<^verbatim>\<open>get_api_token\<close>, defined alike in both modules. The bare \<^verbatim>\<open>except\<close>
  swallows whatever the secret store raises; a secret store that answers at all is
  final, also when its answer is \<^verbatim>\<open>None\<close>.
\<close>

definition get_api_token :: "settings \<Rightarrow> string option" where
  "get_api_token cfg =
     (if HAS_STREAMLIT cfg then
        (case secrets_get cfg ''HUGGINGFACEHUB_API_TOKEN'' of
           Inr v \<Rightarrow> v
         | Inl e \<Rightarrow> getenv cfg ''HUGGINGFACEHUB_API_TOKEN'')
      else getenv cfg ''HUGGINGFACEHUB_API_TOKEN'')"

text \<open>The token is in neither place.\<close>

definition token_absent :: "settings \<Rightarrow> bool" where
  "token_absent cfg \<longleftrightarrow>
     (case secrets_get cfg ''HUGGINGFACEHUB_API_TOKEN'' of
        Inr (Some t) \<Rightarrow> False
      | _ \<Rightarrow> True)
     \<and> getenv cfg ''HUGGINGFACEHUB_API_TOKEN'' = None"

text \<open>
  The client constructors of \<^verbatim>\<open>langchain_huggingface\<close>, each applied to the
  model name and to the token the source passes as \<^verbatim>\<open>huggingfacehub_api_token\<close>
  (the other keyword arguments of the source are constants), and the chat wrapper.
  They are library code: what they do with a missing token is theirs to decide.
\<close>

record ('w, 'emb, 'ep, 'llm) huggingface =
  HuggingFaceEndpointEmbeddings :: "string \<Rightarrow> string option \<Rightarrow> ('w, 'emb) py"
  HuggingFaceEndpoint :: "string \<Rightarrow> string option \<Rightarrow> ('w, 'ep) py"
  ChatHuggingFace :: "'ep \<Rightarrow> ('w, 'llm) py"

text \<open>\<^verbatim>\<open>QueryEngine._initialize_llm\<close>: the handler prints and re-raises.\<close>

definition initialize_llm ::
  "('w, 'emb, 'ep, 'llm) huggingface \<Rightarrow> settings \<Rightarrow> ('vs, 'llm) QueryEngine
     \<Rightarrow> ('w, ('vs, 'llm) QueryEngine) py" where
  "initialize_llm hf cfg self =
     try_except
       (bind_py (HuggingFaceEndpoint hf ''meta-llama/Llama-3.1-8B-Instruct'' (get_api_token cfg))
          (\<lambda>llm.
        bind_py (ChatHuggingFace hf llm) (\<lambda>m.
        return_py (self\<lparr>model := Some m\<rparr>))))
       (\<lambda>e. raise_py e)"

text \<open>
  \<^verbatim>\<open>vector_store.as_retriever(search_type=..., search_kwargs=...)\<close> builds the
  retriever object over the store.
\<close>

definition as_retriever :: "'vs \<Rightarrow> string \<Rightarrow> (string \<rightharpoonup> int) \<Rightarrow> ('w, 'vs retriever) py" where
  "as_retriever vs st kwargs =
     return_py \<lparr>vectorstore = vs, search_type = st, search_kwargs = kwargs\<rparr>"

text \<open>
  \<^verbatim>\<open>QueryEngine._build_rag_chain\<close>: the retriever with \<^verbatim>\<open>{"k": self.k}\<close>,
  then the chain over \<^verbatim>\<open>self.model\<close> (composing a chain with \<^verbatim>\<open>None\<close> is a
  \<^verbatim>\<open>TypeError\<close>). The handler prints and re-raises.
\<close>

definition build_rag_chain :: "('vs, 'llm) QueryEngine \<Rightarrow> ('w, ('vs, 'llm) QueryEngine) py" where
  "build_rag_chain self =
     try_except
       (bind_py (as_retriever (vector_store self) ''similarity'' [''k'' \<mapsto> k self]) (\<lambda>r.
        let self1 = self\<lparr>retriever := Some r\<rparr> in
        case model self1 of
          None \<Rightarrow> raise_py (TypeError ''Expected a Runnable, callable or dict'')
        | Some m \<Rightarrow> return_py (self1\<lparr>rag_chain := Some m\<rparr>)))
       (\<lambda>e. raise_py e)"

definition QueryEngine_init ::
  "('w, 'emb, 'ep, 'llm) huggingface \<Rightarrow> settings \<Rightarrow> 'vs \<Rightarrow> int
     \<Rightarrow> ('w, ('vs, 'llm) QueryEngine) py" where
  "QueryEngine_init hf cfg vs k0 =
     bind_py
       (initialize_llm hf cfg
          \<lparr>vector_store = vs, k = k0, model = None, rag_chain = None, retriever = None\<rparr>)
       build_rag_chain"

section \<open>vector\_store.py\<close>

record 'emb VectorStoreManager =
  embedding_model :: "'emb option"

text \<open>\<^verbatim>\<open>VectorStoreManager._initialize_embeddings\<close>: the handler prints and re-raises.\<close>

definition initialize_embeddings ::
  "('w, 'emb, 'ep, 'llm) huggingface \<Rightarrow> settings \<Rightarrow> 'emb VectorStoreManager
     \<Rightarrow> ('w, 'emb VectorStoreManager) py" where
  "initialize_embeddings hf cfg self =
     try_except
       (bind_py
          (HuggingFaceEndpointEmbeddings hf
             ''sentence-transformers/paraphrase-multilingual-mpnet-base-v2'' (get_api_token cfg))
          (\<lambda>m. return_py (self\<lparr>embedding_model := Some m\<rparr>)))
       (\<lambda>e. raise_py e)"

definition VectorStoreManager_init ::
  "('w, 'emb, 'ep, 'llm) huggingface \<Rightarrow> settings \<Rightarrow> ('w, 'emb VectorStoreManager) py" where
  "VectorStoreManager_init hf cfg = initialize_embeddings hf cfg \<lparr>embedding_model = None\<rparr>"

subsection \<open>Strings\<close>

text \<open>
  A Python \<^verbatim>\<open>str\<close> is a \<open>string\<close>, one \<open>char\<close> per code point below 256.
  The methods below are those the source and \<^verbatim>\<open>urllib.parse\<close> apply to it.
  A parsing function without effects returns \<open>py_exception + 'a\<close>.
\<close>

definition bind_exn :: "py_exception + 'a \<Rightarrow> ('a \<Rightarrow> py_exception + 'b) \<Rightarrow> py_exception + 'b" where
  "bind_exn m f = (case m of Inl e \<Rightarrow> Inl e | Inr a \<Rightarrow> f a)"

definition catch_exn ::
  "py_exception + 'a \<Rightarrow> (py_exception \<Rightarrow> py_exception + 'a) \<Rightarrow> py_exception + 'a" where
  "catch_exn body handler = (case body of Inl e \<Rightarrow> handler e | Inr a \<Rightarrow> Inr a)"

text \<open>\<^verbatim>\<open>c.lower()\<close> on the code points below 256.\<close>

definition lower_char :: "char \<Rightarrow> char" where
  "lower_char c =
     (let n = (of_char c :: nat) in
      if (65 \<le> n \<and> n \<le> 90) \<or> (192 \<le> n \<and> n \<le> 222 \<and> n \<noteq> 215)
      then char_of (n + 32) else c)"

definition lower :: "string \<Rightarrow> string" where
  "lower s = map lower_char s"

definition startswith :: "string \<Rightarrow> string \<Rightarrow> bool" where
  "startswith s p \<longleftrightarrow> take (length p) s = p"

text \<open>\<^verbatim>\<open>s.find(c, start)\<close> and \<^verbatim>\<open>s.rfind(c)\<close>; \<open>None\<close> is Python's \<open>-1\<close>.\<close>

definition find_from :: "char \<Rightarrow> string \<Rightarrow> nat \<Rightarrow> nat option" where
  "find_from c s start =
     (let seg = drop start s in
      if c \<in> set seg then Some (start + length (takeWhile (\<lambda>x. x \<noteq> c) seg)) else None)"

definition rfind :: "char \<Rightarrow> string \<Rightarrow> nat option" where
  "rfind c s =
     (if c \<in> set s then Some (length s - 1 - length (takeWhile (\<lambda>x. x \<noteq> c) (rev s)))
      else None)"

text \<open>\<^verbatim>\<open>s.partition(c)\<close>: the head, whether the separator was found, the tail.\<close>

definition partition_at :: "char \<Rightarrow> string \<Rightarrow> string \<times> bool \<times> string" where
  "partition_at c s =
     (takeWhile (\<lambda>x. x \<noteq> c) s, c \<in> set s, drop 1 (dropWhile (\<lambda>x. x \<noteq> c) s))"

text \<open>\<^verbatim>\<open>s.split(c)\<close>; the result is never empty.\<close>

fun split_on :: "char \<Rightarrow> string \<Rightarrow> string list" where
  "split_on c [] = [[]]"
| "split_on c (x # xs) =
     (if x = c then [] # split_on c xs
      else (case split_on c xs of
              [] \<Rightarrow> [[x]]
            | y # ys \<Rightarrow> (x # y) # ys))"

text \<open>\<^verbatim>\<open>xs[-1]\<close>\<close>

definition index_last :: "'a list \<Rightarrow> py_exception + 'a" where
  "index_last xs =
     (case rev xs of
        [] \<Rightarrow> Inl (IndexError ''list index out of range'')
      | x # _ \<Rightarrow> Inr x)"

subsection \<open>urllib.parse\<close>

text \<open>
  \<^verbatim>\<open>urlparse\<close> and \<^verbatim>\<open>parse_qs\<close> of the standard library (CPython 3.11,
  \<^verbatim>\<open>Lib/urllib/parse.py\<close>), with the default arguments the source leaves them.
  Three steps of theirs go through other modules and are parameters here:
  the validation of a bracketed host (\<^verbatim>\<open>ipaddress\<close>; \<open>Some\<close> is the message of
  the \<^verbatim>\<open>ValueError\<close>), the NFKC check of a non-ASCII \<^verbatim>\<open>netloc\<close>
  (\<^verbatim>\<open>unicodedata\<close>), and the decoding of \<^verbatim>\<open>%xx\<close> escapes in a string that
  contains \<^verbatim>\<open>%\<close>.
\<close>

record urllib =
  check_bracketed_host :: "string \<Rightarrow> string option"
  nfkc_unsafe :: "string \<Rightarrow> bool"
  unquote_escapes :: "string \<Rightarrow> string"

record ParseResult =
  url_scheme :: string
  url_netloc :: string
  url_path :: string
  url_params :: string
  url_query :: string
  url_fragment :: string

definition scheme_chars :: string where
  "scheme_chars = ''abcdefghijklmnopqrstuvwxyzABCDEFGHIJKLMNOPQRSTUVWXYZ0123456789+-.''"

definition uses_params :: "string list" where
  "uses_params = [[], ''ftp'', ''hdl'', ''prospero'', ''http'', ''imap'', ''https'', ''shttp'',
     ''rtsp'', ''rtsps'', ''rtspu'', ''sip'', ''sips'', ''mms'', ''sftp'', ''tel'']"

definition isascii :: "char \<Rightarrow> bool" where
  "isascii c \<longleftrightarrow> (of_char c :: nat) < 128"

definition isalpha :: "char \<Rightarrow> bool" where
  "isalpha c \<longleftrightarrow>
     (let n = (of_char c :: nat) in (65 \<le> n \<and> n \<le> 90) \<or> (97 \<le> n \<and> n \<le> 122))"

text \<open>\<^verbatim>\<open>_splitnetloc(url, start)\<close>\<close>

definition splitnetloc :: "string \<Rightarrow> nat \<Rightarrow> string \<times> string" where
  "splitnetloc url start =
     (let delim = fold (\<lambda>c d. case find_from c url start of Some wdelim \<Rightarrow> min d wdelim | None \<Rightarrow> d)
                    ''/?#'' (length url)
      in (take (delim - start) (drop start url), drop delim url))"

text \<open>\<^verbatim>\<open>_splitparams(url)\<close>; a \<^verbatim>\<open>find\<close> of \<open>-1\<close> slices as Python does.\<close>

definition splitparams :: "string \<Rightarrow> string \<times> string" where
  "splitparams url =
     (if CHR ''/'' \<in> set url then
        (case find_from CHR '';'' url (case rfind CHR ''/'' url of Some j \<Rightarrow> j | None \<Rightarrow> 0) of
           None \<Rightarrow> (url, [])
         | Some i \<Rightarrow> (take i url, drop (i + 1) url))
      else
        (case find_from CHR '';'' url 0 of
           None \<Rightarrow> (butlast url, url)
         | Some i \<Rightarrow> (take i url, drop (i + 1) url)))"

text \<open>
  \<^verbatim>\<open>urlsplit(url)\<close>: strip leading C0 controls and spaces, drop tab, CR and LF,
  cut the scheme, the netloc after \<^verbatim>\<open>//\<close> (with the bracket checks), the fragment
  and the query.
\<close>

definition urlsplit ::
  "urllib \<Rightarrow> string \<Rightarrow> py_exception + (string \<times> string \<times> string \<times> string \<times> string)" where
  "urlsplit lib url0 =
     (let url1 = dropWhile (\<lambda>c. (of_char c :: nat) \<le> 32) url0;
          url2 = filter (\<lambda>c. c \<notin> set [CHR 0x09, CHR 0x0D, CHR 0x0A]) url1;
          (scheme, url3) =
            (case find_from CHR '':'' url2 0 of
               None \<Rightarrow> ([], url2)
             | Some i \<Rightarrow>
                 if 0 < i \<and> isascii (hd url2) \<and> isalpha (hd url2)
                    \<and> list_all (\<lambda>c. c \<in> set scheme_chars) (take i url2)
                 then (lower (take i url2), drop (i + 1) url2)
                 else ([], url2));
          (netloc, url4) = (if take 2 url3 = ''//'' then splitnetloc url3 2 else ([], url3));
          lbr = CHR ''['' \<in> set netloc;
          rbr = CHR '']'' \<in> set netloc
      in
        if take 2 url3 = ''//'' \<and> ((lbr \<and> \<not> rbr) \<or> (rbr \<and> \<not> lbr))
        then Inl (ValueError ''Invalid IPv6 URL'')
        else
          (case (if take 2 url3 = ''//'' \<and> lbr \<and> rbr
                 then check_bracketed_host lib
                        (fst (partition_at CHR '']'' (snd (snd (partition_at CHR ''['' netloc)))))
                 else None) of
             Some msg \<Rightarrow> Inl (ValueError msg)
           | None \<Rightarrow>
               (let (url5, fragment) =
                      (if CHR ''#'' \<in> set url4
                       then (fst (partition_at CHR ''#'' url4), snd (snd (partition_at CHR ''#'' url4)))
                       else (url4, []));
                    (url6, qs) =
                      (if CHR ''?'' \<in> set url5
                       then (fst (partition_at CHR ''?'' url5), snd (snd (partition_at CHR ''?'' url5)))
                       else (url5, []))
                in
                  if netloc \<noteq> [] \<and> \<not> list_all isascii netloc \<and> nfkc_unsafe lib netloc
                  then Inl (ValueError (''netloc '' @ [CHR 0x27] @ netloc @ [CHR 0x27]
                              @ '' contains invalid characters under NFKC normalization''))
                  else Inr (scheme, netloc, url6, qs, fragment))))"

definition urlparse :: "urllib \<Rightarrow> string \<Rightarrow> py_exception + ParseResult" where
  "urlparse lib url =
     bind_exn (urlsplit lib url) (\<lambda>(scheme, netloc, url1, qs, fragment).
       let (url2, ps) =
             (if scheme \<in> set uses_params \<and> CHR '';'' \<in> set url1 then splitparams url1
              else (url1, []))
       in Inr \<lparr>url_scheme = scheme, url_netloc = netloc, url_path = url2, url_params = ps,
                url_query = qs, url_fragment = fragment\<rparr>)"

text \<open>\<^verbatim>\<open>unquote\<close> returns a string without \<^verbatim>\<open>%\<close> as it is.\<close>

definition unquote :: "urllib \<Rightarrow> string \<Rightarrow> string" where
  "unquote lib s = (if CHR ''%'' \<notin> set s then s else unquote_escapes lib s)"

definition unquote_plus :: "urllib \<Rightarrow> string \<Rightarrow> string" where
  "unquote_plus lib s = unquote lib (map (\<lambda>c. if c = CHR ''+'' then CHR '' '' else c) s)"

text \<open>
  \<^verbatim>\<open>parse_qsl(qs)\<close>: the fields between \<^verbatim>\<open>&\<close>; an empty field and a field
  with an empty value are skipped (\<^verbatim>\<open>keep_blank_values=False\<close>).
\<close>

definition parse_qsl :: "urllib \<Rightarrow> string \<Rightarrow> (string \<times> string) list" where
  "parse_qsl lib qs =
     (if qs = [] then []
      else concat (map (\<lambda>name_value.
             if name_value \<noteq> [] then
               (case partition_at CHR ''='' name_value of
                  (name, has_eq, val) \<Rightarrow>
                    if val \<noteq> [] then [(unquote_plus lib name, unquote_plus lib val)] else [])
             else [])
           (split_on CHR ''&'' qs)))"

text \<open>The loop of \<^verbatim>\<open>parse_qs\<close> that collects the values of each name.\<close>

fun parse_qs_loop ::
  "(string \<times> string) list \<Rightarrow> (string \<rightharpoonup> string list) \<Rightarrow> (string \<rightharpoonup> string list)" where
  "parse_qs_loop [] parsed_result = parsed_result"
| "parse_qs_loop ((name, val) # pairs) parsed_result =
     parse_qs_loop pairs
       (case parsed_result name of
          Some vals \<Rightarrow> parsed_result(name \<mapsto> vals @ [val])
        | None \<Rightarrow> parsed_result(name \<mapsto> [val]))"

definition parse_qs :: "urllib \<Rightarrow> string \<Rightarrow> (string \<rightharpoonup> string list)" where
  "parse_qs lib qs = parse_qs_loop (parse_qsl lib qs) Map.empty"

subsection \<open>extract\_video\_id\<close>

definition extract_video_id :: "urllib \<Rightarrow> string \<Rightarrow> py_exception + string option" where
  "extract_video_id lib url =
     catch_exn
       (bind_exn (urlparse lib url) (\<lambda>parsed.
          if lower (url_netloc parsed) = ''youtu.be'' then
            bind_exn (index_last (split_on CHR ''/'' (url_path parsed))) (\<lambda>s. Inr (Some s))
          else if startswith (lower (url_path parsed)) ''/shorts'' then
            bind_exn (index_last (split_on CHR ''/'' (url_path parsed))) (\<lambda>s. Inr (Some s))
          else
            (case (if url_query parsed \<noteq> [] then parse_qs lib (url_query parsed) ''v'' else None) of
               Some (v # vs) \<Rightarrow> Inr (Some v)
             | _ \<Rightarrow>
                 if length url = 11 \<and> CHR ''/'' \<notin> set url then Inr (Some url)
                 else Inr None)))
       (\<lambda>e. Inr None)"

subsection \<open>fetch\_transcript\<close>

text \<open>
  What \<^verbatim>\<open>youtube_transcript_api\<close> hands back: a fetched transcript (the texts of
  its snippets in order, its language, whether it was generated) and a transcript
  entry of the listing.
\<close>

record fetched_transcript =
  snippets :: "string list"
  language :: string
  is_generated :: bool

record transcript_entry =
  entry_language :: string
  entry_language_code :: string
  entry_is_generated :: bool
  is_translatable :: bool

text \<open>
  The calls the source makes on the library: \<^verbatim>\<open>ytt_api.fetch(video_id, languages=...)\<close>,
  \<^verbatim>\<open>list(ytt_api.list(video_id).transcripts.values())\<close>,
  \<^verbatim>\<open>first_transcript.translate('en')\<close> and \<^verbatim>\<open>translated.fetch()\<close>.
\<close>

record 'w YouTubeTranscriptApi =
  api_fetch :: "string \<Rightarrow> string list \<Rightarrow> ('w, fetched_transcript) py"
  api_list :: "string \<Rightarrow> ('w, transcript_entry list) py"
  api_translate :: "transcript_entry \<Rightarrow> string \<Rightarrow> ('w, transcript_entry) py"
  entry_fetch :: "transcript_entry \<Rightarrow> ('w, fetched_transcript) py"

text \<open>The tuple \<^verbatim>\<open>(transcript_text, language, is_generated, error_message)\<close>.\<close>

type_synonym transcript_tuple = "string option \<times> string option \<times> bool option \<times> string option"

definition disabled_message :: string where
  "disabled_message = ''Transcripts are disabled for this video''"

definition not_found_message :: string where
  "not_found_message = ''No Hindi or English transcript found, and translation not available''"

text \<open>
  The handler of \<^verbatim>\<open>except NoTranscriptFound\<close>: list what there is, take the
  first entry, translate it to English when it can be translated.
\<close>

definition translate_fallback :: "'w YouTubeTranscriptApi \<Rightarrow> string \<Rightarrow> ('w, transcript_tuple) py" where
  "translate_fallback ytt_api video_id =
     try_except
       (bind_py (api_list ytt_api video_id) (\<lambda>available_transcripts.
          case available_transcripts of
            [] \<Rightarrow> return_py (None, None, None, Some not_found_message)
          | first_transcript # _ \<Rightarrow>
              if is_translatable first_transcript then
                bind_py (api_translate ytt_api first_transcript ''en'') (\<lambda>translated.
                bind_py (entry_fetch ytt_api translated) (\<lambda>fetched.
                return_py
                  (Some (join '' '' (snippets fetched)),
                   Some (entry_language first_transcript @ '' (translated to English)''),
                   Some (entry_is_generated first_transcript),
                   None)))
              else return_py (None, None, None, Some not_found_message)))
       (\<lambda>e. return_py (None, None, None, Some (''No transcript available: '' @ str_of e)))"

definition fetch_transcript :: "'w YouTubeTranscriptApi \<Rightarrow> string \<Rightarrow> ('w, transcript_tuple) py" where
  "fetch_transcript ytt_api video_id =
     try_except
       (bind_py (api_fetch ytt_api video_id [''hi'', ''en'', ''en-IN'', ''hi-IN'']) (\<lambda>fetched.
          return_py
            (Some (join '' '' (snippets fetched)),
             Some (language fetched),
             Some (is_generated fetched),
             None)))
       (\<lambda>e. case e of
          TranscriptsDisabled m \<Rightarrow> return_py (None, None, None, Some disabled_message)
        | NoTranscriptFound m \<Rightarrow> translate_fallback ytt_api video_id
        | _ \<Rightarrow> return_py (None, None, None, Some (''Error: '' @ str_of e)))"

subsection \<open>create\_vector\_store\<close>

text \<open>
  The library calls of \<^verbatim>\<open>create_vector_store\<close>: the constructor of
  \<^verbatim>\<open>RecursiveCharacterTextSplitter\<close> applied to \<^verbatim>\<open>chunk_size\<close>,
  \<^verbatim>\<open>chunk_overlap\<close> and the separators, \<^verbatim>\<open>splitter.create_documents\<close>, and
  \<^verbatim>\<open>FAISS.from_documents\<close>, which embeds the chunks remotely. The source itself
  compares \<^verbatim>\<open>chunk_overlap\<close> with \<^verbatim>\<open>chunk_size\<close> nowhere.
\<close>

record ('w, 'sp, 'emb, 'vs) indexing =
  RecursiveCharacterTextSplitter :: "int \<Rightarrow> int \<Rightarrow> string list \<Rightarrow> ('w, 'sp) py"
  create_documents :: "'sp \<Rightarrow> string list \<Rightarrow> ('w, document list) py"
  FAISS_from_documents :: "document list \<Rightarrow> 'emb option \<Rightarrow> ('w, 'vs) py"

text \<open>The tuple \<^verbatim>\<open>(vector_store, num_chunks, error_message)\<close>.\<close>

definition create_vector_store ::
  "('w, 'sp, 'emb, 'vs) indexing \<Rightarrow> 'emb VectorStoreManager \<Rightarrow> string \<Rightarrow> int \<Rightarrow> int
     \<Rightarrow> ('w, 'vs option \<times> int \<times> string option) py" where
  "create_vector_store ix self transcript chunk_size chunk_overlap =
     try_except
       (bind_py (RecursiveCharacterTextSplitter ix chunk_size chunk_overlap
                   [[CHR 0x0A, CHR 0x0A], [CHR 0x0A], '' '', []]) (\<lambda>splitter.
        bind_py (create_documents ix splitter [transcript]) (\<lambda>chunks.
        bind_py (FAISS_from_documents ix chunks (embedding_model self)) (\<lambda>vs.
        return_py (Some vs, int (length chunks), None)))))
       (\<lambda>e. return_py (None, 0, Some (''Error creating vector store: '' @ str_of e)))"

section \<open>Properties stated on the results\<close>

text \<open>
  The invariant of a result dictionary: the count is the length of the source list,
  and a failure carries no sources and no answer.
\<close>

definition result_shape :: "query_result \<Rightarrow> bool" where
  "result_shape r \<longleftrightarrow>
     num_sources r = int (length (sources r)) \<and>
     (\<not> success r \<longrightarrow> sources r = [] \<and> num_sources r = 0 \<and> answer r = None)"

text \<open>The two shapes of the tuple \<open>fetch_transcript\<close> returns.\<close>

definition tuple_shape :: "transcript_tuple \<Rightarrow> bool" where
  "tuple_shape res \<longleftrightarrow>
     (case res of (txt, lang, gen, err) \<Rightarrow>
        (err = None \<and> txt \<noteq> None \<and> lang \<noteq> None \<and> gen \<noteq> None)
        \<or> ((case err of None \<Rightarrow> False | Some m \<Rightarrow> m \<noteq> [])
            \<and> txt = None \<and> lang = None \<and> gen = None))"

text \<open>
  The four shapes of an input that \<open>extract_video_id\<close> recognises, read off the
  parse of the input: the short-link host, the shorts path, a \<open>v\<close> query parameter,
  a bare token of 11 characters without \<open>/\<close>.
\<close>

definition recognised_shape :: "urllib \<Rightarrow> string \<Rightarrow> bool" where
  "recognised_shape lib url \<longleftrightarrow>
     (case urlparse lib url of
        Inl e \<Rightarrow> False
      | Inr parsed \<Rightarrow>
          lower (url_netloc parsed) = ''youtu.be''
          \<or> startswith (lower (url_path parsed)) ''/shorts''
          \<or> (url_query parsed \<noteq> []
              \<and> (case parse_qs lib (url_query parsed) ''v'' of
                    Some (v # vs) \<Rightarrow> True
                  | _ \<Rightarrow> False))
          \<or> (length url = 11 \<and> CHR ''/'' \<notin> set url))"

text \<open>
  The characters that end or alter a component of a URL: the separators of path,
  fragment, query, parameters and query fields, the two escapes of a query value,
  and the three characters \<open>urlsplit\<close> deletes.
\<close>

definition url_special :: "char list" where
  "url_special = ''/#?;&+%'' @ [CHR 0x09, CHR 0x0D, CHR 0x0A]"

section \<open>Concrete environments\<close>

text \<open>
  Small services to run the functions on. The world counts the calls made. The store
  is the list of its chunk texts and a search returns the first \<open>k\<close> of them.
\<close>

definition demo_langchain :: "(nat, string list, string) langchain" where
  "demo_langchain =
     \<lparr>similarity_search = (\<lambda>vs q kwargs w.
        (case kwargs ''k'' of
           None \<Rightarrow> (Inr (map (\<lambda>t. \<lparr>page_content = t\<rparr>) (take 4 vs)), Suc w)
         | Some n \<Rightarrow> (Inr (map (\<lambda>t. \<lparr>page_content = t\<rparr>) (take (nat n) vs)), Suc w))),
      generate = (\<lambda>m ctx q w. (Inr (m @ '' read '' @ ctx), Suc w))\<rparr>"

text \<open>Services that are down: every call raises.\<close>

definition offline_langchain :: "(nat, string list, string) langchain" where
  "offline_langchain =
     \<lparr>similarity_search = (\<lambda>vs q kwargs w. (Inl (OtherException ''connection refused''), Suc w)),
      generate = (\<lambda>m ctx q w. (Inl (OtherException ''connection refused''), Suc w))\<rparr>"

text \<open>An engine as \<^verbatim>\<open>QueryEngine(store, k=2)\<close> leaves it.\<close>

definition demo_engine :: "(string list, string) QueryEngine" where
  "demo_engine =
     \<lparr>vector_store = [''alpha'', ''beta'', ''gamma''], k = 2, model = Some ''llama'',
      rag_chain = Some ''llama'',
      retriever = Some \<lparr>vectorstore = [''alpha'', ''beta'', ''gamma''],
                         search_type = ''similarity'', search_kwargs = [''k'' \<mapsto> 2]\<rparr>\<rparr>"

text \<open>
  Transcript services for three videos: one with captions disabled, one whose only
  transcript is French and cannot be translated, one with an English transcript.
\<close>

definition disabled_api :: "nat YouTubeTranscriptApi" where
  "disabled_api =
     \<lparr>api_fetch = (\<lambda>vid langs w. (Inl (TranscriptsDisabled ''Subtitles are disabled''), Suc w)),
      api_list = (\<lambda>vid w. (Inl (TranscriptsDisabled ''Subtitles are disabled''), Suc w)),
      api_translate = (\<lambda>t lang w. (Inl (OtherException ''not translatable''), Suc w)),
      entry_fetch = (\<lambda>t w. (Inl (OtherException ''unavailable''), Suc w))\<rparr>"

definition french_entry :: transcript_entry where
  "french_entry =
     \<lparr>entry_language = ''French'', entry_language_code = ''fr'', entry_is_generated = False,
      is_translatable = False\<rparr>"

definition untranslatable_api :: "nat YouTubeTranscriptApi" where
  "untranslatable_api =
     \<lparr>api_fetch = (\<lambda>vid langs w. (Inl (NoTranscriptFound ''No transcripts were found''), Suc w)),
      api_list = (\<lambda>vid w. (Inr [french_entry], Suc w)),
      api_translate = (\<lambda>t lang w. (Inl (OtherException ''not translatable''), Suc w)),
      entry_fetch = (\<lambda>t w. (Inl (OtherException ''unavailable''), Suc w))\<rparr>"

definition english_api :: "nat YouTubeTranscriptApi" where
  "english_api =
     \<lparr>api_fetch = (\<lambda>vid langs w.
        (Inr \<lparr>snippets = [''hello'', ''world''], language = ''English'', is_generated = True\<rparr>,
         Suc w)),
      api_list = (\<lambda>vid w. (Inr [], Suc w)),
      api_translate = (\<lambda>t lang w. (Inl (OtherException ''not translatable''), Suc w)),
      entry_fetch = (\<lambda>t w. (Inl (OtherException ''unavailable''), Suc w))\<rparr>"

text \<open>Library parts that accept every host and leave escapes alone.\<close>

definition plain_urllib :: urllib where
  "plain_urllib =
     \<lparr>check_bracketed_host = (\<lambda>h. None), nfkc_unsafe = (\<lambda>n. False),
      unquote_escapes = (\<lambda>s. s)\<rparr>"

text \<open>
  Indexing services. The splitter's constructor rejects an overlap larger than the
  chunk size and nothing else, which is the check \<^verbatim>\<open>langchain_text_splitters\<close>
  makes; a text shorter than the chunk size stays one chunk; the index is the list
  of its documents and needs an embedding client.
\<close>

definition demo_indexing :: "(nat, int \<times> int, string, document list) indexing" where
  "demo_indexing =
     \<lparr>RecursiveCharacterTextSplitter = (\<lambda>cs co seps w.
        if co > cs
        then (Inl (ValueError ''Got a larger chunk overlap than chunk size, should be smaller.''), w)
        else (Inr (cs, co), w)),
      create_documents = (\<lambda>sp texts w. (Inr (map (\<lambda>t. \<lparr>page_content = t\<rparr>) texts), w)),
      FAISS_from_documents = (\<lambda>docs emb w.
        case emb of
          None \<Rightarrow> (Inl (none_has_no ''embed_documents''), w)
        | Some e \<Rightarrow> (Inr docs, Suc w))\<rparr>"

definition demo_manager :: "string VectorStoreManager" where
  "demo_manager = \<lparr>embedding_model = Some ''mpnet''\<rparr>"

text \<open>
  A deployment without the token: Streamlit is installed, there is no secrets file
  (so \<^verbatim>\<open>st.secrets.get\<close> raises), and the environment variable is not set.
\<close>

definition no_token_settings :: settings where
  "no_token_settings =
     \<lparr>HAS_STREAMLIT = True,
      secrets_get = (\<lambda>key. Inl (OtherException ''No secrets found'')),
      getenv = (\<lambda>name. None)\<rparr>"

text \<open>
  Client constructors that take the token as an optional argument and only store
  it, as those of \<^verbatim>\<open>langchain_huggingface\<close> declare it
  (\<^verbatim>\<open>huggingfacehub_api_token: Optional[str]\<close>); they call nothing.
\<close>

definition lenient_huggingface ::
  "(nat, string \<times> string option, string \<times> string option, string) huggingface" where
  "lenient_huggingface =
     \<lparr>HuggingFaceEndpointEmbeddings = (\<lambda>name tok w. (Inr (name, tok), w)),
      HuggingFaceEndpoint = (\<lambda>name tok w. (Inr (name, tok), w)),
      ChatHuggingFace = (\<lambda>ep w. (Inr (fst ep), w))\<rparr>"

text \<open>Client constructors that refuse a missing token.\<close>

definition strict_huggingface ::
  "(nat, string \<times> string option, string \<times> string option, string) huggingface" where
  "strict_huggingface =
     \<lparr>HuggingFaceEndpointEmbeddings = (\<lambda>name tok w.
        case tok of
          None \<Rightarrow> (Inl (ValueError ''Did not find huggingfacehub_api_token''), w)
        | Some t \<Rightarrow> (Inr (name, tok), w)),
      HuggingFaceEndpoint = (\<lambda>name tok w.
        case tok of
          None \<Rightarrow> (Inl (ValueError ''Did not find huggingfacehub_api_token''), w)
        | Some t \<Rightarrow> (Inr (name, tok), w)),
      ChatHuggingFace = (\<lambda>ep w. (Inr (fst ep), w))\<rparr>"

text \<open>
  A video whose only transcript is French and can be translated, and a deployment
  whose secret store answers without the token while the environment has it.
\<close>

definition translatable_api :: "nat YouTubeTranscriptApi" where
  "translatable_api =
     \<lparr>api_fetch = (\<lambda>vid langs w. (Inl (NoTranscriptFound ''No transcripts were found''), Suc w)),
      api_list = (\<lambda>vid w. (Inr [french_entry\<lparr>is_translatable := True\<rparr>], Suc w)),
      api_translate = (\<lambda>t lang w.
        (Inr (t\<lparr>entry_language := ''English'', entry_language_code := lang\<rparr>), Suc w)),
      entry_fetch = (\<lambda>t w.
        (Inr \<lparr>snippets = [''good'', ''morning''], language = entry_language t,
               is_generated = entry_is_generated t\<rparr>, Suc w))\<rparr>"

definition empty_secrets_settings :: settings where
  "empty_secrets_settings =
     \<lparr>HAS_STREAMLIT = True,
      secrets_get = (\<lambda>key. Inr None),
      getenv = (\<lambda>name. if name = ''HUGGINGFACEHUB_API_TOKEN'' then Some ''hf_abc'' else None)\<rparr>"

section \<open>The query engine\<close>

lemmas py_defs = try_except_def bind_py_def return_py_def raise_py_def attr_of_def

text \<open>\<open>query\<close> returns what its \<^verbatim>\<open>try\<close> block returns, or the failure dictionary.\<close>

lemma query_total:
  "query lc self q w =
     (case query_try lc self q w of
        (Inr d, w') \<Rightarrow> (Inr d, w')
      | (Inl e, w') \<Rightarrow> (Inr (query_except q e), w'))"
  by (simp add: query_def try_except_def return_py_def split: prod.splits sum.splits)

lemma query_try_shape:
  assumes "query_try lc self q w = (Inr d, w')"
  shows "success d \<and> question d = q \<and> (\<exists>a. answer d = Some a)
         \<and> (\<exists>rt docs w1. retriever self = Some rt \<and> retriever_invoke lc rt q w1 = (Inr docs, w')
               \<and> sources d = map page_content docs)
         \<and> num_sources d = int (length (sources d)) \<and> error d = None"
  using assms
  by (auto simp: query_try_def py_defs Let_def split: prod.splits sum.splits option.splits)

text \<open>
  On a built engine the \<^verbatim>\<open>try\<close> block is three service calls in a row: the
  retrieval inside the chain, the generation, the retrieval of the sources. It raises
  exactly when one of them does.
\<close>

lemma query_try_services:
  assumes "rag_chain self = Some m" and "retriever self = Some rt"
  shows "query_try lc self q w =
     (case retriever_invoke lc rt q w of
        (Inl e, w1) \<Rightarrow> (Inl e, w1)
      | (Inr ctx_docs, w1) \<Rightarrow>
          (case generate lc m (format_docs ctx_docs) q w1 of
             (Inl e, w2) \<Rightarrow> (Inl e, w2)
           | (Inr ans, w2) \<Rightarrow>
               (case retriever_invoke lc rt q w2 of
                  (Inl e, w3) \<Rightarrow> (Inl e, w3)
                | (Inr docs, w3) \<Rightarrow>
                    (Inr \<lparr>success = True, question = q, answer = Some ans,
                           sources = map page_content docs,
                           num_sources = int (length docs), error = None\<rparr>, w3))))"
  using assms
  by (simp add: query_try_def rag_chain_invoke_def py_defs Let_def
           split: prod.splits sum.splits)

lemma query_result_shape:
  "\<exists>r w'. query lc self q w = (Inr r, w') \<and> result_shape r"
proof (cases "query_try lc self q w")
  case (Pair res w')
  show ?thesis
  proof (cases res)
    case (Inl e)
    with Pair show ?thesis
      by (simp add: query_total query_except_def result_shape_def)
  next
    case (Inr d)
    with Pair query_try_shape [of lc self q w d w'] show ?thesis
      by (simp add: query_total result_shape_def)
  qed
qed

lemma query_demo:
  "query demo_langchain demo_engine ''what?'' 0 =
     (Inr \<lparr>success = True, question = ''what?'',
            answer = Some (''llama read alpha'' @ [CHR 0x0A, CHR 0x0A] @ ''beta''),
            sources = [''alpha'', ''beta''], num_sources = 2, error = None\<rparr>, 3)"
  by (simp add: query_def query_try_def rag_chain_invoke_def py_defs retriever_invoke_def
        demo_langchain_def demo_engine_def format_docs_def Let_def numeral_2_eq_2)

lemma query_try_offline:
  "query_try offline_langchain demo_engine ''what?'' 0 =
     (Inl (OtherException ''connection refused''), 1)"
  by (simp add: query_try_def rag_chain_invoke_def py_defs retriever_invoke_def
        offline_langchain_def demo_engine_def)

lemma query_offline:
  "query offline_langchain demo_engine ''what?'' 0 =
     (Inr \<lparr>success = False, question = ''what?'', answer = None, sources = [], num_sources = 0,
            error = Some ''Error processing query: connection refused''\<rparr>, 1)"
  by (simp add: query_total query_try_offline query_except_def)

text \<open>
  C1. For every engine, question and state of the services, \<open>query\<close> returns a
  result dictionary and raises nothing. When its \<^verbatim>\<open>try\<close> block returns, the
  dictionary is the block's: \<open>success\<close> is true, the answer is not null, the sources
  are the page contents of the documents the retriever returned, and \<open>error\<close> is
  null. When anything in the block raises \<open>e\<close>, the dictionary has
  \<open>success = False\<close>, no answer, no sources, and the error text
  \<open>Error processing query: \<close> followed by \<open>str(e)\<close>.
\<close>

theorem query_never_raises:
  "\<exists>r w'. query lc self q w = (Inr r, w') \<and> question r = q \<and>
     (case fst (query_try lc self q w) of
        Inr d \<Rightarrow> r = d \<and> success r \<and> (\<exists>a. answer r = Some a)
                  \<and> (\<exists>rt docs w1. retriever self = Some rt
                        \<and> retriever_invoke lc rt q w1 = (Inr docs, w')
                        \<and> sources r = map page_content docs)
                  \<and> error r = None
      | Inl e \<Rightarrow> \<not> success r \<and> answer r = None \<and> sources r = []
                  \<and> error r = Some (''Error processing query: '' @ str_of e))"
proof (cases "query_try lc self q w")
  case (Pair res w')
  show ?thesis
  proof (cases res)
    case (Inl e)
    with Pair show ?thesis
      by (simp add: query_total query_except_def)
  next
    case (Inr d)
    with Pair query_try_shape [of lc self q w d w'] show ?thesis
      by (simp add: query_total)
  qed
qed

theorem query_never_raises_witness:
  "\<exists>r w'. query offline_langchain demo_engine ''what?'' 0 = (Inr r, w') \<and> \<not> success r
     \<and> answer r = None \<and> error r = Some ''Error processing query: connection refused''"
  using query_never_raises [of offline_langchain demo_engine "''what?''" 0]
  by (auto simp: query_try_offline)

lemma batch_query_loop_shape:
  "list_all result_shape results \<Longrightarrow>
   \<exists>rs w'. batch_query_loop lc self qs results w = (Inr rs, w')
      \<and> list_all result_shape rs \<and> length rs = length results + length qs"
proof (induction qs arbitrary: results w)
  case Nil
  then show ?case by (simp add: return_py_def)
next
  case (Cons q qs)
  obtain r w1 where r: "query lc self q w = (Inr r, w1)" "result_shape r"
    using query_result_shape [of lc self q w] by blast
  from Cons.prems r(2) have "list_all result_shape (results @ [r])" by simp
  from Cons.IH [OF this, of w1] r(1) show ?case
    by (simp add: bind_py_def)
qed

text \<open>
  C9. Every dictionary \<open>query\<close> returns satisfies \<open>result_shape\<close>: \<open>num_sources\<close>
  is the length of \<open>sources\<close>, and when \<open>success\<close> is false the sources are
  empty, \<open>num_sources\<close> is 0 and the answer is null. \<open>batch_query\<close> returns one
  such dictionary per question and raises nothing.
\<close>

theorem query_results_invariant:
  "(\<exists>r w'. query lc self q w = (Inr r, w') \<and> result_shape r) \<and>
   (\<exists>rs w'. batch_query lc self qs w = (Inr rs, w') \<and> length rs = length qs
       \<and> (\<forall>r \<in> set rs. result_shape r))"
proof
  show "\<exists>r w'. query lc self q w = (Inr r, w') \<and> result_shape r"
    by (rule query_result_shape)
next
  have "list_all result_shape []" by simp
  from batch_query_loop_shape [OF this, of lc self qs w]
  show "\<exists>rs w'. batch_query lc self qs w = (Inr rs, w') \<and> length rs = length qs
       \<and> (\<forall>r \<in> set rs. result_shape r)"
    by (auto simp: batch_query_def list_all_iff)
qed

theorem query_results_invariant_witness:
  "(\<exists>r w'. query offline_langchain demo_engine ''what?'' 0 = (Inr r, w') \<and> \<not> success r
      \<and> num_sources r = 0 \<and> sources r = [] \<and> answer r = None) \<and>
   (\<exists>rs w'. batch_query offline_langchain demo_engine [''what?''] 0 = (Inr rs, w')
      \<and> length rs = 1)"
  using query_results_invariant [of offline_langchain demo_engine "''what?''" 0 "[''what?'']"]
  by (auto simp: result_shape_def query_offline)

text \<open>
  C8. On an engine that has its retriever (every engine the constructor returns has),
  \<open>update_k\<close> returns normally; afterwards \<open>k\<close> and the entry \<open>k\<close> of the
  retriever's keyword dictionary are \<open>new_k\<close>, so a retrieval searches the same store
  with that width. The store of the engine, the store the retriever points to, the
  search type, the other keywords, the model and the chain are what they were, and
  no service is called: \<open>update_k\<close> does not take the world.
\<close>

theorem update_k_frame:
  assumes "retriever self = Some r"
  shows "\<exists>self' r'. update_k self new_k = (Inr (), self')
     \<and> k self' = new_k
     \<and> retriever self' = Some r'
     \<and> search_kwargs r' ''k'' = Some new_k
     \<and> (\<forall>key. key \<noteq> ''k'' \<longrightarrow> search_kwargs r' key = search_kwargs r key)
     \<and> search_type r' = search_type r
     \<and> vectorstore r' = vectorstore r
     \<and> vector_store self' = vector_store self
     \<and> model self' = model self
     \<and> rag_chain self' = rag_chain self
     \<and> (\<forall>lc q. retriever_invoke lc r' q
            = similarity_search lc (vectorstore r) q ((search_kwargs r)(''k'' \<mapsto> new_k)))"
  using assms by (simp add: update_k_def Let_def retriever_invoke_def)

theorem update_k_frame_witness:
  "retriever demo_engine = Some \<lparr>vectorstore = [''alpha'', ''beta'', ''gamma''],
       search_type = ''similarity'', search_kwargs = [''k'' \<mapsto> 2]\<rparr>
   \<and> (\<exists>self' r'. update_k demo_engine 3 = (Inr (), self') \<and> k self' = 3
         \<and> retriever self' = Some r' \<and> search_kwargs r' ''k'' = Some 3
         \<and> vectorstore r' = [''alpha'', ''beta'', ''gamma'']
         \<and> vector_store self' = [''alpha'', ''beta'', ''gamma''])"
proof -
  have h: "retriever demo_engine = Some \<lparr>vectorstore = [''alpha'', ''beta'', ''gamma''],
       search_type = ''similarity'', search_kwargs = [''k'' \<mapsto> 2]\<rparr>"
    by (simp add: demo_engine_def)
  from update_k_frame [OF h, of 3] h show ?thesis
    by (auto simp: demo_engine_def)
qed

section \<open>The transcript fetcher\<close>

lemma translate_fallback_shape:
  "\<exists>res w'. translate_fallback api vid w = (Inr res, w') \<and> tuple_shape res"
  by (auto simp: translate_fallback_def py_defs tuple_shape_def not_found_message_def
        split: prod.splits sum.splits list.splits option.splits)

lemma english_fetch:
  "fetch_transcript english_api ''Gfr50f6ZBvo'' 0 =
     (Inr (Some ''hello world'', Some ''English'', Some True, None), 1)"
  by (simp add: fetch_transcript_def py_defs english_api_def)

lemma disabled_fetch:
  "fetch_transcript disabled_api ''Gfr50f6ZBvo'' 0 =
     (Inr (None, None, None, Some ''Transcripts are disabled for this video''), 1)"
  by (simp add: fetch_transcript_def py_defs disabled_api_def disabled_message_def)

text \<open>
  C10. For every video id and every behaviour of the transcript library,
  \<open>fetch_transcript\<close> returns a tuple and raises nothing, and the tuple has one of
  two shapes: the error is null and the text, the language and the generated flag are
  all set; or the error is a non-empty string and the other three are null.
\<close>

theorem fetch_transcript_shape:
  "\<exists>txt lang gen err w'. fetch_transcript api vid w = (Inr (txt, lang, gen, err), w') \<and>
     ((err = None \<and> txt \<noteq> None \<and> lang \<noteq> None \<and> gen \<noteq> None)
      \<or> ((\<exists>m. err = Some m \<and> m \<noteq> []) \<and> txt = None \<and> lang = None \<and> gen = None))"
proof (cases "api_fetch api vid [''hi'', ''en'', ''en-IN'', ''hi-IN''] w")
  case (Pair res w1)
  show ?thesis
  proof (cases res)
    case (Inr fetched)
    with Pair show ?thesis
      by (simp add: fetch_transcript_def py_defs)
  next
    case (Inl e)
    obtain fres w2 where fb: "translate_fallback api vid w1 = (Inr fres, w2)" "tuple_shape fres"
      using translate_fallback_shape [of api vid w1] by blast
    obtain a b c d where fres: "fres = (a, b, c, d)"
      by (cases fres) auto
    from Pair Inl fb fres show ?thesis
      by (cases e)
         (auto simp: fetch_transcript_def py_defs tuple_shape_def disabled_message_def
            split: option.splits)
  qed
qed

theorem fetch_transcript_shape_witness:
  "(\<exists>w'. fetch_transcript english_api ''Gfr50f6ZBvo'' 0 =
      (Inr (Some ''hello world'', Some ''English'', Some True, None), w'))
   \<and> (\<exists>err w'. fetch_transcript disabled_api ''Gfr50f6ZBvo'' 0 = (Inr (None, None, None, err), w')
        \<and> err \<noteq> None \<and> err \<noteq> Some [])"
  using fetch_transcript_shape [of english_api "''Gfr50f6ZBvo''" 0]
    fetch_transcript_shape [of disabled_api "''Gfr50f6ZBvo''" 0]
  by (auto simp: english_fetch disabled_fetch)

text \<open>
  C5. When the library reports that transcripts are disabled, \<open>fetch_transcript\<close>
  returns the error \<open>Transcripts are disabled for this video\<close>. When it reports that
  no transcript exists in the requested languages and the listing holds no
  translatable transcript, the error is
  \<open>No Hindi or English transcript found, and translation not available\<close>; when the
  listing itself fails with \<open>e\<close>, it is \<open>No transcript available: \<close> followed by
  \<open>str(e)\<close>. Neither of the last two is the first, and nothing is raised.
\<close>

theorem fetch_transcript_distinguishes:
  "(api_fetch api vid [''hi'', ''en'', ''en-IN'', ''hi-IN''] w = (Inl (TranscriptsDisabled m), w1)
      \<longrightarrow> fetch_transcript api vid w =
            (Inr (None, None, None, Some ''Transcripts are disabled for this video''), w1))
   \<and> (api_fetch api vid [''hi'', ''en'', ''en-IN'', ''hi-IN''] w = (Inl (NoTranscriptFound m), w1)
        \<and> api_list api vid w1 = (Inr entries, w2)
        \<and> list_all (\<lambda>t. \<not> is_translatable t) entries
      \<longrightarrow> fetch_transcript api vid w =
            (Inr (None, None, None,
                  Some ''No Hindi or English transcript found, and translation not available''), w2))
   \<and> (api_fetch api vid [''hi'', ''en'', ''en-IN'', ''hi-IN''] w = (Inl (NoTranscriptFound m), w1)
        \<and> api_list api vid w1 = (Inl e, w2)
      \<longrightarrow> fetch_transcript api vid w =
            (Inr (None, None, None, Some (''No transcript available: '' @ str_of e)), w2))
   \<and> ''Transcripts are disabled for this video''
        \<noteq> ''No Hindi or English transcript found, and translation not available''
   \<and> ''Transcripts are disabled for this video'' \<noteq> ''No transcript available: '' @ str_of e"
  by (auto simp: fetch_transcript_def translate_fallback_def py_defs disabled_message_def
        not_found_message_def split: list.splits)

theorem fetch_transcript_distinguishes_witness:
  "api_fetch disabled_api ''Gfr50f6ZBvo'' [''hi'', ''en'', ''en-IN'', ''hi-IN''] 0
     = (Inl (TranscriptsDisabled ''Subtitles are disabled''), 1)
   \<and> fetch_transcript disabled_api ''Gfr50f6ZBvo'' 0 =
       (Inr (None, None, None, Some ''Transcripts are disabled for this video''), 1)
   \<and> api_fetch untranslatable_api ''Gfr50f6ZBvo'' [''hi'', ''en'', ''en-IN'', ''hi-IN''] 0
     = (Inl (NoTranscriptFound ''No transcripts were found''), 1)
   \<and> api_list untranslatable_api ''Gfr50f6ZBvo'' 1 = (Inr [french_entry], 2)
   \<and> list_all (\<lambda>t. \<not> is_translatable t) [french_entry]
   \<and> fetch_transcript untranslatable_api ''Gfr50f6ZBvo'' 0 =
       (Inr (None, None, None,
             Some ''No Hindi or English transcript found, and translation not available''), 2)"
proof -
  have a: "api_fetch disabled_api ''Gfr50f6ZBvo'' [''hi'', ''en'', ''en-IN'', ''hi-IN''] 0
     = (Inl (TranscriptsDisabled ''Subtitles are disabled''), 1)"
    by (simp add: disabled_api_def)
  have b: "api_fetch untranslatable_api ''Gfr50f6ZBvo'' [''hi'', ''en'', ''en-IN'', ''hi-IN''] 0
     = (Inl (NoTranscriptFound ''No transcripts were found''), 1)"
    by (simp add: untranslatable_api_def)
  have c: "api_list untranslatable_api ''Gfr50f6ZBvo'' 1 = (Inr [french_entry], 2)"
    by (simp add: untranslatable_api_def)
  have d: "list_all (\<lambda>t. \<not> is_translatable t) [french_entry]"
    by (simp add: french_entry_def)
  from fetch_transcript_distinguishes
         [of disabled_api "''Gfr50f6ZBvo''" 0 "''Subtitles are disabled''" 1]
       fetch_transcript_distinguishes
         [of untranslatable_api "''Gfr50f6ZBvo''" 0 "''No transcripts were found''" 1
             "[french_entry]" 2]
       a b c d
  show ?thesis by simp
qed

section \<open>The video identifier extractor\<close>

lemma split_on_nonempty: "split_on c s \<noteq> []"
  by (induction s) (auto split: list.splits)

lemma split_on_no_sep: "c \<notin> set s \<Longrightarrow> split_on c s = [s]"
  by (induction s) auto

lemma filter_keep: "\<forall>x \<in> set t. P x \<Longrightarrow> filter P t = t"
  by (induction t) auto

lemmas url_defs = urlparse_def urlsplit_def find_from_def splitnetloc_def partition_at_def
  splitparams_def rfind_def lower_def lower_char_def isascii_def isalpha_def scheme_chars_def
  uses_params_def bind_exn_def Let_def

lemma urlparse_watch:
  assumes "CHR ''#'' \<notin> set t" "CHR 0x09 \<notin> set t" "CHR 0x0D \<notin> set t" "CHR 0x0A \<notin> set t"
  shows "urlparse lib (''https://www.youtube.com/watch?v='' @ t) =
           Inr \<lparr>url_scheme = ''https'', url_netloc = ''www.youtube.com'', url_path = ''/watch'',
                 url_params = [], url_query = ''v='' @ t, url_fragment = []\<rparr>"
proof -
  have f: "filter (\<lambda>c. c \<noteq> CHR 0x09 \<and> c \<noteq> CHR 0x0D \<and> c \<noteq> CHR 0x0A) t = t"
    using assms by (intro filter_keep) auto
  show ?thesis
    using assms f by (simp add: url_defs takeWhile_eq_all_conv)
qed


lemma urlparse_short:
  assumes "CHR ''#'' \<notin> set t" "CHR ''?'' \<notin> set t" "CHR '';'' \<notin> set t"
    "CHR 0x09 \<notin> set t" "CHR 0x0D \<notin> set t" "CHR 0x0A \<notin> set t"
  shows "urlparse lib (''https://youtu.be/'' @ t) =
           Inr \<lparr>url_scheme = ''https'', url_netloc = ''youtu.be'', url_path = ''/'' @ t,
                 url_params = [], url_query = [], url_fragment = []\<rparr>"
proof -
  have f: "filter (\<lambda>c. c \<noteq> CHR 0x09 \<and> c \<noteq> CHR 0x0D \<and> c \<noteq> CHR 0x0A) t = t"
    using assms by (intro filter_keep) auto
  show ?thesis
    using assms f by (simp add: url_defs takeWhile_eq_all_conv)
qed

lemma urlparse_shorts:
  assumes "CHR ''#'' \<notin> set t" "CHR ''?'' \<notin> set t" "CHR '';'' \<notin> set t"
    "CHR 0x09 \<notin> set t" "CHR 0x0D \<notin> set t" "CHR 0x0A \<notin> set t"
  shows "urlparse lib (''https://www.youtube.com/shorts/'' @ t) =
           Inr \<lparr>url_scheme = ''https'', url_netloc = ''www.youtube.com'',
                 url_path = ''/shorts/'' @ t,
                 url_params = [], url_query = [], url_fragment = []\<rparr>"
proof -
  have f: "filter (\<lambda>c. c \<noteq> CHR 0x09 \<and> c \<noteq> CHR 0x0D \<and> c \<noteq> CHR 0x0A) t = t"
    using assms by (intro filter_keep) auto
  show ?thesis
    using assms f by (simp add: url_defs takeWhile_eq_all_conv)
qed

lemma parse_qs_v:
  assumes "t \<noteq> []" "CHR ''&'' \<notin> set t" "CHR ''+'' \<notin> set t" "CHR ''%'' \<notin> set t"
  shows "parse_qs lib (''v='' @ t) ''v'' = Some [t]"
proof -
  have m: "map (\<lambda>c. if c = CHR ''+'' then CHR '' '' else c) t = t"
    using assms by (intro map_idI) auto
  show ?thesis
    using assms m
    by (simp add: parse_qs_def parse_qsl_def split_on_no_sep partition_at_def
          unquote_plus_def unquote_def)
qed

lemma lower_char_slash: "lower_char c = CHR ''/'' \<Longrightarrow> c = CHR ''/''"
proof (rule ccontr)
  assume l: "lower_char c = CHR ''/''" and n: "c \<noteq> CHR ''/''"
  define n where "n = (of_char c :: nat)"
  from l n have up: "(65 \<le> n \<and> n \<le> 90) \<or> (192 \<le> n \<and> n \<le> 222 \<and> n \<noteq> 215)"
    and eq: "char_of (n + 32) = CHR ''/''"
    by (auto simp: lower_char_def Let_def n_def split: if_splits)
  from eq have "(of_char (char_of (n + 32) :: char) :: nat) = of_char CHR ''/''" by simp
  then have "(n + 32) mod 256 = 47" by simp
  with up show False by auto
qed

lemma take2_slashes: "take 2 u = ''//'' \<Longrightarrow> CHR ''/'' \<in> set u"
  by (cases u) auto

lemma urlsplit_bare:
  assumes "CHR ''/'' \<notin> set url" "CHR ''?'' \<notin> set url"
  shows "\<exists>sch u fr. urlsplit lib url = Inr (sch, [], u, [], fr) \<and> set u \<subseteq> set url"
proof -
  define url2 where
    "url2 = filter (\<lambda>c. c \<notin> set [CHR 0x09, CHR 0x0D, CHR 0x0A])
              (dropWhile (\<lambda>c. (of_char c :: nat) \<le> 32) url)"
  have s2: "set url2 \<subseteq> set url"
    by (auto simp: url2_def dest: set_dropWhileD)
  define pr where
    "pr = (case find_from CHR '':'' url2 0 of
               None \<Rightarrow> ([], url2)
             | Some i \<Rightarrow>
                 if 0 < i \<and> isascii (hd url2) \<and> isalpha (hd url2)
                    \<and> list_all (\<lambda>c. c \<in> set scheme_chars) (take i url2)
                 then (lower (take i url2), drop (i + 1) url2)
                 else ([], url2))"
  obtain sch url3 where pr: "pr = (sch, url3)" by (cases pr)
  have s3: "set url3 \<subseteq> set url2"
    using pr by (auto simp: pr_def split: option.splits if_splits dest: in_set_dropD)
  with s2 assms have no: "CHR ''/'' \<notin> set url3" "CHR ''?'' \<notin> set url3" by auto
  then have n2: "take 2 url3 \<noteq> ''//''" using take2_slashes by blast
  have u: "urlsplit lib url =
      (let (url5, fragment) =
                      (if CHR ''#'' \<in> set url3
                       then (fst (partition_at CHR ''#'' url3), snd (snd (partition_at CHR ''#'' url3)))
                       else (url3, []));
                    (url6, qs) =
                      (if CHR ''?'' \<in> set url5
                       then (fst (partition_at CHR ''?'' url5), snd (snd (partition_at CHR ''?'' url5)))
                       else (url5, []))
       in Inr (sch, [], url6, qs, fragment))"
    unfolding urlsplit_def Let_def url2_def [symmetric] pr_def [symmetric] pr
    using n2 by simp
  show ?thesis
  proof (cases "CHR ''#'' \<in> set url3")
    case True
    have "set (takeWhile (\<lambda>x. x \<noteq> CHR ''#'') url3) \<subseteq> set url3"
      by (auto dest: set_takeWhileD)
    with True no s2 s3 show ?thesis
      by (auto simp: u partition_at_def dest: set_takeWhileD)
  next
    case False
    with no s2 s3 show ?thesis by (auto simp: u)
  qed
qed

lemma urlparse_bare:
  assumes "CHR ''/'' \<notin> set url" "CHR ''?'' \<notin> set url"
  shows "\<exists>p. urlparse lib url = Inr p \<and> url_netloc p = [] \<and> url_query p = []
           \<and> CHR ''/'' \<notin> set (url_path p)"
proof -
  obtain sch u fr where s: "urlsplit lib url = Inr (sch, [], u, [], fr)" "set u \<subseteq> set url"
    using urlsplit_bare [OF assms, of lib] by blast
  with assms have nu: "CHR ''/'' \<notin> set u" by auto
  then have "CHR ''/'' \<notin> set (fst (splitparams u))"
    by (auto simp: splitparams_def find_from_def split: option.splits
          dest: in_set_takeD in_set_butlastD)
  with s nu show ?thesis
    by (auto simp: urlparse_def bind_exn_def Let_def split: prod.splits)
qed

lemma not_shorts: "CHR ''/'' \<notin> set u \<Longrightarrow> \<not> startswith (lower u) ''/shorts''"
  by (cases u) (auto simp: startswith_def lower_def dest: lower_char_slash)

lemma index_last_split_on: "index_last (split_on c s) = Inr (last (split_on c s))"
  using split_on_nonempty [of c s]
  by (cases "split_on c s" rule: rev_cases) (auto simp: index_last_def)

lemma not_a_url: "\<not> recognised_shape plain_urllib ''not a url''"
  by code_simp

text \<open>
  C4. For every input string and every behaviour of the library parts,
  \<open>extract_video_id\<close> returns a value and raises nothing, and the value is null
  exactly when the input has none of the four recognised shapes (an input
  \<open>urlparse\<close> rejects has none).
\<close>

theorem extract_video_id_total:
  "(\<exists>r. extract_video_id lib url = Inr r)
   \<and> (extract_video_id lib url = Inr None \<longleftrightarrow> \<not> recognised_shape lib url)"
  by (auto simp: extract_video_id_def recognised_shape_def catch_exn_def bind_exn_def
        index_last_split_on split: sum.splits option.splits list.splits)

theorem extract_video_id_total_witness:
  "\<not> recognised_shape plain_urllib ''not a url''
   \<and> extract_video_id plain_urllib ''not a url'' = Inr None"
  using extract_video_id_total [of plain_urllib "''not a url''"] not_a_url by simp

text \<open>
  C3, as stated, lets the token be any 11 characters without \<open>/\<close>. The token
  \<open>abc&defghij\<close> is one; in the watch URL the \<open>&\<close> ends the value of \<open>v\<close>,
  so the identifier is \<open>abc\<close>, while the short link yields the whole token.
\<close>

theorem extract_video_id_ampersand_counterexample:
  "length ''abc&defghij'' = 11 \<and> CHR ''/'' \<notin> set ''abc&defghij''
   \<and> extract_video_id plain_urllib (''https://www.youtube.com/watch?v='' @ ''abc&defghij'')
       = Inr (Some ''abc'')
   \<and> extract_video_id plain_urllib (''https://youtu.be/'' @ ''abc&defghij'')
       = Inr (Some ''abc&defghij'')"
  by code_simp

text \<open>
  C3, amended. For every token \<open>t\<close> of 11 characters that contains none of
  \<open>/ # ? ; & + %\<close>, tab, carriage return and line feed (every token over letters,
  digits, \<open>-\<close> and \<open>_\<close> is one), \<open>extract_video_id\<close> yields \<open>t\<close> from the watch
  URL, the short link, the shorts URL and the bare token alike.
\<close>

theorem extract_video_id_same_identifier:
  assumes "length t = 11" and "set t \<inter> set url_special = {}"
  shows "extract_video_id lib (''https://www.youtube.com/watch?v='' @ t) = Inr (Some t)
     \<and> extract_video_id lib (''https://youtu.be/'' @ t) = Inr (Some t)
     \<and> extract_video_id lib (''https://www.youtube.com/shorts/'' @ t) = Inr (Some t)
     \<and> extract_video_id lib t = Inr (Some t)"
proof -
  from assms(2) have no:
    "CHR ''/'' \<notin> set t" "CHR ''#'' \<notin> set t" "CHR ''?'' \<notin> set t" "CHR '';'' \<notin> set t"
    "CHR ''&'' \<notin> set t" "CHR ''+'' \<notin> set t" "CHR ''%'' \<notin> set t"
    "CHR 0x09 \<notin> set t" "CHR 0x0D \<notin> set t" "CHR 0x0A \<notin> set t"
    by (auto simp: url_special_def)
  from assms(1) have ne: "t \<noteq> []" by auto
  note pw = urlparse_watch [OF no(2) no(8) no(9) no(10), of lib, simplified]
  note qv = parse_qs_v [OF ne no(5) no(6) no(7), of lib, simplified]
  have watch: "extract_video_id lib (''https://www.youtube.com/watch?v='' @ t) = Inr (Some t)"
    by (simp add: extract_video_id_def pw qv catch_exn_def bind_exn_def
          lower_def lower_char_def startswith_def)
  note ps = urlparse_short [OF no(2) no(3) no(4) no(8) no(9) no(10), of lib, simplified]
  have short: "extract_video_id lib (''https://youtu.be/'' @ t) = Inr (Some t)"
    using no(1)
    by (simp add: extract_video_id_def ps catch_exn_def bind_exn_def
          lower_def lower_char_def index_last_def split_on_no_sep)
  note ph = urlparse_shorts [OF no(2) no(3) no(4) no(8) no(9) no(10), of lib, simplified]
  have shorts: "extract_video_id lib (''https://www.youtube.com/shorts/'' @ t) = Inr (Some t)"
    using no(1)
    by (simp add: extract_video_id_def ph catch_exn_def bind_exn_def
          lower_def lower_char_def startswith_def index_last_def split_on_no_sep)
  obtain p where p: "urlparse lib t = Inr p" "url_netloc p = []" "url_query p = []"
      "CHR ''/'' \<notin> set (url_path p)"
    using urlparse_bare [OF no(1) no(3), of lib] by blast
  have bare: "extract_video_id lib t = Inr (Some t)"
    using p assms(1) no(1) not_shorts [OF p(4)]
    by (simp add: extract_video_id_def catch_exn_def bind_exn_def lower_def)
  from watch short shorts bare show ?thesis by simp
qed

theorem extract_video_id_same_identifier_witness:
  "length ''Gfr50f6ZBvo'' = 11 \<and> set ''Gfr50f6ZBvo'' \<inter> set url_special = {}
   \<and> extract_video_id plain_urllib (''https://www.youtube.com/watch?v='' @ ''Gfr50f6ZBvo'')
       = Inr (Some ''Gfr50f6ZBvo'')
   \<and> extract_video_id plain_urllib (''https://youtu.be/'' @ ''Gfr50f6ZBvo'')
       = Inr (Some ''Gfr50f6ZBvo'')
   \<and> extract_video_id plain_urllib (''https://www.youtube.com/shorts/'' @ ''Gfr50f6ZBvo'')
       = Inr (Some ''Gfr50f6ZBvo'')
   \<and> extract_video_id plain_urllib ''Gfr50f6ZBvo'' = Inr (Some ''Gfr50f6ZBvo'')"
proof -
  have a: "length ''Gfr50f6ZBvo'' = 11" by simp
  have b: "set ''Gfr50f6ZBvo'' \<inter> set url_special = {}" by (simp add: url_special_def)
  from extract_video_id_same_identifier [OF a b, of plain_urllib] a b show ?thesis by simp
qed

section \<open>Index construction\<close>

text \<open>
  C6, as stated, asks for an error result whenever \<open>chunk_overlap \<ge> chunk_size\<close>.
  \<open>create_vector_store\<close> does not compare the two; with a splitter that accepts
  equal values (the library's constructor rejects only a larger overlap) it builds
  the index.
\<close>

theorem create_vector_store_equal_overlap_counterexample:
  "(1000 :: int) \<ge> 1000
   \<and> create_vector_store demo_indexing demo_manager ''hello world'' 1000 1000 0 =
       (Inr (Some [\<lparr>page_content = ''hello world''\<rparr>], 1, None), 1)"
  by (simp add: create_vector_store_def py_defs demo_indexing_def demo_manager_def)

text \<open>
  C6, amended. For every transcript and every pair of sizes, \<open>create_vector_store\<close>
  raises nothing and returns either a store with no error, or no store, 0 chunks and
  an error text that starts with \<open>Error creating vector store: \<close>. When the
  splitter's constructor rejects the sizes with \<open>e\<close>, the result is the latter, with
  \<open>str(e)\<close> as the rest of the text. Which sizes are rejected is the library's
  decision.
\<close>

theorem create_vector_store_converts_errors:
  "(\<exists>vs n err w'. create_vector_store ix self transcript cs co w = (Inr (vs, n, err), w')
      \<and> ((vs = None \<and> n = 0 \<and> (\<exists>m. err = Some (''Error creating vector store: '' @ m)))
          \<or> (vs \<noteq> None \<and> err = None)))
   \<and> (RecursiveCharacterTextSplitter ix cs co [[CHR 0x0A, CHR 0x0A], [CHR 0x0A], '' '', []] w
         = (Inl e, w1)
       \<longrightarrow> create_vector_store ix self transcript cs co w =
             (Inr (None, 0, Some (''Error creating vector store: '' @ str_of e)), w1))"
proof (intro conjI impI)
  show "\<exists>vs n err w'. create_vector_store ix self transcript cs co w = (Inr (vs, n, err), w')
      \<and> ((vs = None \<and> n = 0 \<and> (\<exists>m. err = Some (''Error creating vector store: '' @ m)))
          \<or> (vs \<noteq> None \<and> err = None))"
    by (auto simp: create_vector_store_def py_defs split: prod.splits sum.splits)
next
  assume "RecursiveCharacterTextSplitter ix cs co [[CHR 0x0A, CHR 0x0A], [CHR 0x0A], '' '', []] w
            = (Inl e, w1)"
  then show "create_vector_store ix self transcript cs co w =
             (Inr (None, 0, Some (''Error creating vector store: '' @ str_of e)), w1)"
    by (simp add: create_vector_store_def py_defs)
qed

theorem create_vector_store_converts_errors_witness:
  "RecursiveCharacterTextSplitter demo_indexing 1000 1200
       [[CHR 0x0A, CHR 0x0A], [CHR 0x0A], '' '', []] 0
     = (Inl (ValueError ''Got a larger chunk overlap than chunk size, should be smaller.''), 0)
   \<and> create_vector_store demo_indexing demo_manager ''hello world'' 1000 1200 0 =
       (Inr (None, 0, Some (''Error creating vector store: ''
               @ ''Got a larger chunk overlap than chunk size, should be smaller.'')), 0)"
proof -
  have h: "RecursiveCharacterTextSplitter demo_indexing 1000 1200
       [[CHR 0x0A, CHR 0x0A], [CHR 0x0A], '' '', []] 0
     = (Inl (ValueError ''Got a larger chunk overlap than chunk size, should be smaller.''), 0)"
    by (simp add: demo_indexing_def)
  from create_vector_store_converts_errors
         [of demo_indexing demo_manager "''hello world''" 1000 1200 0
             "ValueError ''Got a larger chunk overlap than chunk size, should be smaller.''" 0]
       h
  show ?thesis by simp
qed

section \<open>Construction without a token\<close>

lemma token_absent_None: "token_absent cfg \<Longrightarrow> get_api_token cfg = None"
  by (auto simp: token_absent_def get_api_token_def split: sum.splits option.splits)

lemma no_token_absent: "token_absent no_token_settings"
  by (simp add: token_absent_def no_token_settings_def)

text \<open>
  C7, as stated, asks that construction fail when the token is in neither place.
  Neither constructor looks at the token: it is passed on, \<^verbatim>\<open>None\<close> included,
  and with clients that accept a missing token the manager is built.
\<close>

theorem construction_without_token_counterexample:
  "token_absent no_token_settings
   \<and> VectorStoreManager_init lenient_huggingface no_token_settings 0 =
       (Inr \<lparr>embedding_model =
               Some (''sentence-transformers/paraphrase-multilingual-mpnet-base-v2'', None)\<rparr>, 0)"
  by (simp add: no_token_absent token_absent_None VectorStoreManager_init_def
        initialize_embeddings_def py_defs lenient_huggingface_def)

text \<open>
  C7, amended. When the token is in neither place, \<open>get_api_token\<close> returns null,
  the client constructor is the first thing either construction calls, with that
  null, and construction fails exactly when a client constructor raises, with the
  constructor's own exception; otherwise the object is built.
\<close>

theorem construction_hands_token_to_client:
  assumes "token_absent cfg"
  shows "get_api_token cfg = None
     \<and> VectorStoreManager_init hf cfg w =
         (case HuggingFaceEndpointEmbeddings hf
                 ''sentence-transformers/paraphrase-multilingual-mpnet-base-v2'' None w of
            (Inl e, w1) \<Rightarrow> (Inl e, w1)
          | (Inr m, w1) \<Rightarrow> (Inr \<lparr>embedding_model = Some m\<rparr>, w1))
     \<and> QueryEngine_init hf cfg vs k0 w =
         (case HuggingFaceEndpoint hf ''meta-llama/Llama-3.1-8B-Instruct'' None w of
            (Inl e, w1) \<Rightarrow> (Inl e, w1)
          | (Inr ep, w1) \<Rightarrow>
              (case ChatHuggingFace hf ep w1 of
                 (Inl e, w2) \<Rightarrow> (Inl e, w2)
               | (Inr m, w2) \<Rightarrow>
                   (Inr \<lparr>vector_store = vs, k = k0, model = Some m, rag_chain = Some m,
                          retriever = Some \<lparr>vectorstore = vs, search_type = ''similarity'',
                                             search_kwargs = [''k'' \<mapsto> k0]\<rparr>\<rparr>, w2)))"
  using token_absent_None [OF assms]
  by (simp add: VectorStoreManager_init_def initialize_embeddings_def QueryEngine_init_def
        initialize_llm_def build_rag_chain_def as_retriever_def py_defs Let_def
        split: prod.splits sum.splits)

theorem construction_hands_token_to_client_witness:
  "token_absent no_token_settings
   \<and> get_api_token no_token_settings = None
   \<and> VectorStoreManager_init strict_huggingface no_token_settings 0 =
       (Inl (ValueError ''Did not find huggingfacehub_api_token''), 0)
   \<and> QueryEngine_init strict_huggingface no_token_settings [''alpha''] 4 0 =
       (Inl (ValueError ''Did not find huggingfacehub_api_token''), 0)"
  using construction_hands_token_to_client
          [OF no_token_absent, of strict_huggingface 0 "[''alpha'']" 4]
  by (simp add: no_token_absent strict_huggingface_def)

section \<open>Further properties\<close>

lemma query_keeps_question:
  "\<exists>r w'. query lc self q w = (Inr r, w') \<and> question r = q"
proof (cases "query_try lc self q w")
  case (Pair res w')
  show ?thesis
  proof (cases res)
    case (Inl e)
    with Pair show ?thesis by (simp add: query_total query_except_def)
  next
    case (Inr d)
    with Pair query_try_shape [of lc self q w d w'] show ?thesis by (simp add: query_total)
  qed
qed

lemma batch_query_loop_order:
  "\<exists>rs w'. batch_query_loop lc self qs results w = (Inr rs, w')
      \<and> map question rs = map question results @ qs"
proof (induction qs arbitrary: results w)
  case Nil
  show ?case by (simp add: return_py_def)
next
  case (Cons q qs)
  obtain r w1 where r: "query lc self q w = (Inr r, w1)" "question r = q"
    using query_keeps_question [of lc self q w] by blast
  from Cons.IH [of "results @ [r]" w1] r show ?case
    by (simp add: bind_py_def)
qed

text \<open>
  X1. \<open>batch_query\<close> raises nothing and returns one result per question in the order
  of the input: the questions recorded in the results are the input list.
\<close>

theorem batch_query_in_order:
  "\<exists>rs w'. batch_query lc self qs w = (Inr rs, w') \<and> map question rs = qs"
  using batch_query_loop_order [of lc self qs "[]" w] by (simp add: batch_query_def)

text \<open>
  X2. An engine the constructor returns has its retriever over the given store with
  the keyword dictionary \<open>{k: k0}\<close> and the search type \<open>similarity\<close>, keeps the
  store and \<open>k0\<close>, and has its model and its chain over that model.
\<close>

theorem QueryEngine_init_built:
  assumes "QueryEngine_init hf cfg vs k0 w = (Inr self, w')"
  shows "retriever self = Some \<lparr>vectorstore = vs, search_type = ''similarity'',
                                 search_kwargs = [''k'' \<mapsto> k0]\<rparr>
         \<and> vector_store self = vs \<and> k self = k0 \<and> model self \<noteq> None
         \<and> rag_chain self = model self"
  using assms
  by (auto simp: QueryEngine_init_def initialize_llm_def build_rag_chain_def as_retriever_def
        py_defs Let_def split: prod.splits sum.splits option.splits)

theorem QueryEngine_init_built_witness:
  "QueryEngine_init lenient_huggingface no_token_settings [''alpha''] 4 0 =
     (Inr \<lparr>vector_store = [''alpha''], k = 4, model = Some ''meta-llama/Llama-3.1-8B-Instruct'',
            rag_chain = Some ''meta-llama/Llama-3.1-8B-Instruct'',
            retriever = Some \<lparr>vectorstore = [''alpha''], search_type = ''similarity'',
                               search_kwargs = [''k'' \<mapsto> 4]\<rparr>\<rparr>, 0)
   \<and> retriever \<lparr>vector_store = [''alpha''], k = 4,
            model = Some ''meta-llama/Llama-3.1-8B-Instruct'',
            rag_chain = Some ''meta-llama/Llama-3.1-8B-Instruct'',
            retriever = Some \<lparr>vectorstore = [''alpha''], search_type = ''similarity'',
                               search_kwargs = [''k'' \<mapsto> 4]\<rparr>\<rparr>
       = Some \<lparr>vectorstore = [''alpha''], search_type = ''similarity'',
               search_kwargs = [''k'' \<mapsto> 4]\<rparr>"
proof -
  have h: "QueryEngine_init lenient_huggingface no_token_settings [''alpha''] 4 0 =
     (Inr \<lparr>vector_store = [''alpha''], k = 4, model = Some ''meta-llama/Llama-3.1-8B-Instruct'',
            rag_chain = Some ''meta-llama/Llama-3.1-8B-Instruct'',
            retriever = Some \<lparr>vectorstore = [''alpha''], search_type = ''similarity'',
                               search_kwargs = [''k'' \<mapsto> 4]\<rparr>\<rparr>, 0)"
    by (simp add: QueryEngine_init_def initialize_llm_def build_rag_chain_def as_retriever_def
          py_defs Let_def lenient_huggingface_def)
  from QueryEngine_init_built [OF h] h show ?thesis by simp
qed

text \<open>
  X3. When Streamlit is installed and the secret store answers, \<open>get_api_token\<close>
  returns that answer and does not read the environment, also when the answer is
  null; when the store raises, or Streamlit is not installed, it returns the
  environment variable.
\<close>

theorem get_api_token_precedence:
  "(HAS_STREAMLIT cfg \<and> secrets_get cfg ''HUGGINGFACEHUB_API_TOKEN'' = Inr v
      \<longrightarrow> get_api_token cfg = v)
   \<and> (\<not> HAS_STREAMLIT cfg \<or> secrets_get cfg ''HUGGINGFACEHUB_API_TOKEN'' = Inl e
      \<longrightarrow> get_api_token cfg = getenv cfg ''HUGGINGFACEHUB_API_TOKEN'')"
  by (auto simp: get_api_token_def)

theorem get_api_token_precedence_witness:
  "HAS_STREAMLIT empty_secrets_settings
   \<and> secrets_get empty_secrets_settings ''HUGGINGFACEHUB_API_TOKEN'' = Inr None
   \<and> getenv empty_secrets_settings ''HUGGINGFACEHUB_API_TOKEN'' = Some ''hf_abc''
   \<and> get_api_token empty_secrets_settings = None
   \<and> secrets_get no_token_settings ''HUGGINGFACEHUB_API_TOKEN''
       = Inl (OtherException ''No secrets found'')
   \<and> get_api_token no_token_settings = getenv no_token_settings ''HUGGINGFACEHUB_API_TOKEN''"
  using get_api_token_precedence [of empty_secrets_settings None]
    get_api_token_precedence [of no_token_settings _ "OtherException ''No secrets found''"]
  by (simp add: empty_secrets_settings_def no_token_settings_def)

text \<open>
  X4. When no transcript exists in the requested languages and the first listed
  transcript can be translated, \<open>fetch_transcript\<close> translates it to English and
  returns the joined text of the translated snippets, the language of the original
  followed by \<open> (translated to English)\<close>, the generated flag of the original, and
  no error.
\<close>

theorem fetch_transcript_translates:
  assumes "api_fetch api vid [''hi'', ''en'', ''en-IN'', ''hi-IN''] w = (Inl (NoTranscriptFound m), w1)"
    and "api_list api vid w1 = (Inr (first_transcript # others), w2)"
    and "is_translatable first_transcript"
    and "api_translate api first_transcript ''en'' w2 = (Inr translated, w3)"
    and "entry_fetch api translated w3 = (Inr fetched, w4)"
  shows "fetch_transcript api vid w =
           (Inr (Some (join '' '' (snippets fetched)),
                 Some (entry_language first_transcript @ '' (translated to English)''),
                 Some (entry_is_generated first_transcript), None), w4)"
  using assms by (simp add: fetch_transcript_def translate_fallback_def py_defs)

theorem fetch_transcript_translates_witness:
  "fetch_transcript translatable_api ''X0btK9X0Xnk'' 0 =
     (Inr (Some ''good morning'', Some ''French (translated to English)'', Some False, None), 4)"
proof -
  have a: "api_fetch translatable_api ''X0btK9X0Xnk'' [''hi'', ''en'', ''en-IN'', ''hi-IN''] 0
     = (Inl (NoTranscriptFound ''No transcripts were found''), 1)"
    by (simp add: translatable_api_def)
  have b: "api_list translatable_api ''X0btK9X0Xnk'' 1
     = (Inr (french_entry\<lparr>is_translatable := True\<rparr> # []), 2)"
    by (simp add: translatable_api_def)
  have c: "is_translatable (french_entry\<lparr>is_translatable := True\<rparr>)" by simp
  have d: "api_translate translatable_api (french_entry\<lparr>is_translatable := True\<rparr>) ''en'' 2
     = (Inr (french_entry\<lparr>is_translatable := True, entry_language := ''English'',
               entry_language_code := ''en''\<rparr>), 3)"
    by (simp add: translatable_api_def)
  have e: "entry_fetch translatable_api
       (french_entry\<lparr>is_translatable := True, entry_language := ''English'',
               entry_language_code := ''en''\<rparr>) 3
     = (Inr \<lparr>snippets = [''good'', ''morning''], language = ''English'', is_generated = False\<rparr>, 4)"
    by (simp add: translatable_api_def french_entry_def)
  from fetch_transcript_translates [OF a b c d e] show ?thesis
    by (simp add: french_entry_def)
qed

end
